theory Spec2Isabelle
  imports Main "HOL-Library.Sublist"
begin

section \<open>Values, objects and the heap\<close>

text \<open>
  The program is \<^verbatim>\<open>validated_data.py\<close>: a metaclass \<^verbatim>\<open>ValidatedMeta\<close> and a factory
  \<^verbatim>\<open>validated_by\<close>. Objects have identity, so they live in a heap and are named by
  their address; plain data is a value.
\<close>

type_synonym ref = nat

datatype pydata =
    DNone
  | DInt int
  | DStr string
  | DList "pydata list"
  | DDict "(pydata \<times> pydata) list"

datatype pyval = Data pydata | Ref ref

text \<open>
  \<open>NotInitialized\<close> is the error of wrapt for a proxy whose slot was never set (a
  ValueError in older releases, also an AttributeError in newer ones).
\<close>

datatype error =
    AssertionError
  | TypeError
  | AttributeError
  | ValueError
  | NotInitialized
  | SchemaError string

text \<open>
  The classes the source imports: \<^verbatim>\<open>Schema, And, Or\<close> (package schema) and
  \<^verbatim>\<open>ObjectProxy\<close> (package wrapt). Any other class that is not made by this module is
  \<open>OtherClass\<close> with its name. A base class of a class statement is given by its
  method resolution order, itself first.
\<close>

datatype extcls = Schema | And | Or | ObjectProxy | OtherClass string

type_synonym base = "extcls list"

text \<open>
  An object of an imported class: the classes of its type's method resolution order, and
  what its \<^verbatim>\<open>validate\<close> method does with a candidate (a value, or an error raised).
  The schema package is not part of the repository; a schema is any such function.
\<close>

record ext_obj =
  mro :: "extcls list"
  validate :: "pyval \<Rightarrow> error + pyval"

text \<open>
  The \<^verbatim>\<open>__wrapped__\<close> slot of each proxy instance, once it is set.
\<close>

type_synonym slots = "ref \<rightharpoonup> pyval"

text \<open>
  A function, as far as positional arguments go: it takes at least \<open>min_params\<close> of
  them (the receiver included) and at most \<open>max_params\<close>, any number from the least on
  when it has \<^verbatim>\<open>*args\<close> (\<open>None\<close>); called with another number it raises TypeError.
  Keyword arguments are not modelled.
\<close>

record pyfunc =
  min_params :: nat
  max_params :: "nat option"
  body :: "pyval list \<Rightarrow> slots \<Rightarrow> error + slots"

definition accepts :: "pyfunc \<Rightarrow> nat \<Rightarrow> bool" where
  "accepts f n =
     (min_params f \<le> n \<and> (case max_params f of None \<Rightarrow> True | Some m \<Rightarrow> n \<le> m))"

text \<open>
  What a class namespace binds a name to: a value that is not callable, a callable, or the
  closure \<^verbatim>\<open>patched\<close> of \<^verbatim>\<open>ValidatedMeta.__new__\<close> with the values of its two free
  variables \<^verbatim>\<open>schema\<close> and \<^verbatim>\<open>old_init\<close>.
\<close>

datatype nsval = Val pyval | Fun pyfunc | Patched pyval nsval

type_synonym nmspc = "(string \<times> nsval) list"

record class_obj =
  cls_name :: string
  cls_bases :: "base list"
  cls_dict :: nmspc

datatype obj = ExtObj ext_obj | ClassObj class_obj | InstObj ref

text \<open>
  The heap: the objects in allocation order (an address is an index, a new object goes to
  the end) and the slot store of the proxies.
\<close>

record heap =
  objs :: "obj list"
  wrapped :: slots

definition lookup :: "obj list \<Rightarrow> ref \<Rightarrow> obj option" where
  "lookup os a = (if a < length os then Some (os ! a) else None)"

definition alloc :: "obj \<Rightarrow> heap \<Rightarrow> ref \<times> heap" where
  "alloc ob h = (length (objs h), h\<lparr>objs := objs h @ [ob]\<rparr>)"

text \<open>
  What reading an attribute gives: a value, a method of the instance's class bound to
  the instance, or a member of the proxy base class bound to the instance.
\<close>

datatype attr = Attr pyval | Bound nsval ref | ProxyMember string ref

section \<open>The interpreter and the libraries\<close>

text \<open>
  What the module relies on and does not contain is a parameter of the model; every
  theorem holds whatever it is.
  \<^item> \<open>type_new_error\<close>: the error \<^verbatim>\<open>type.__new__\<close> raises for a string name, bases and
    a namespace when it makes no class (a NUL in the name, duplicate or conflicting
    bases, and so on).
  \<^item> \<open>base_new_error\<close>: the error the \<^verbatim>\<open>__new__\<close> inherited from the bases raises for
    the arguments of a call, when it raises.
  \<^item> \<open>inst_validate\<close>: what \<^verbatim>\<open>validate\<close> does on the object at an address, when the
    object is a class made by this module or an instance of one (a method inherited from
    an imported base, or reached through the proxy).
  \<^item> \<open>mod_name\<close> and \<open>class_doc\<close>: the name the module was loaded under and the
    docstring of \<^verbatim>\<open>GenericWrappedData\<close> as the compiler stores it, which the class
    statement binds to \<^verbatim>\<open>__module__\<close> and \<^verbatim>\<open>__doc__\<close>.
  \<^item> \<open>type_own\<close>: what the type of a proxy instance answers itself for an attribute
    name that the class namespace modelled here does not bind, given the content of the
    slot and the instance: the members of ObjectProxy (such as \<^verbatim>\<open>__enter__\<close>), and
    what a newer Python adds to every class (such as \<^verbatim>\<open>__firstlineno__\<close>); \<open>None\<close> for
    a name that is forwarded to the wrapped value.
\<close>

record interp =
  type_new_error :: "string \<Rightarrow> base list \<Rightarrow> nmspc \<Rightarrow> error option"
  base_new_error :: "base list \<Rightarrow> pyval list \<Rightarrow> error option"
  inst_validate :: "ref \<Rightarrow> pyval \<Rightarrow> error + pyval"
  mod_name :: string
  class_doc :: pydata
  type_own :: "string \<Rightarrow> pyval option \<Rightarrow> ref \<Rightarrow> (error + attr) option"

section \<open>The metaclass\<close>

text \<open>
  \<^verbatim>\<open>type(schema).__mro__\<close>, as far as classes not made by this module go. An object of
  an imported class carries it; an instance of a class defined under the metaclass has
  the classes of that class's bases; plain data and classes have none of the imported
  classes.
\<close>

definition type_mro :: "obj list \<Rightarrow> pyval \<Rightarrow> extcls list" where
  "type_mro os v =
     (case v of
        Data d \<Rightarrow> []
      | Ref a \<Rightarrow>
          (case lookup os a of
             Some (ExtObj e) \<Rightarrow> mro e
           | Some (InstObj T) \<Rightarrow>
               (case lookup os T of Some (ClassObj c) \<Rightarrow> concat (cls_bases c) | _ \<Rightarrow> [])
           | _ \<Rightarrow> []))"

definition issubclass :: "extcls list \<Rightarrow> extcls \<Rightarrow> bool" where
  "issubclass m cls = (cls \<in> set m)"

text \<open>
  \<^verbatim>\<open>any([issubclass(type(schema), cls) for cls in [Schema, And, Or]])\<close>
\<close>

definition schema_kind :: "obj list \<Rightarrow> pyval \<Rightarrow> bool" where
  "schema_kind os schema =
     list_ex (\<lambda>b. b) (map (\<lambda>cls. issubclass (type_mro os schema) cls) [Schema, And, Or])"

text \<open>
  \<^verbatim>\<open>schema.validate(x)\<close>: the method of the object \<^verbatim>\<open>schema\<close> refers to. Plain data
  has no such method; for an object made by this module it is the interpreter's.
\<close>

definition call_validate :: "interp \<Rightarrow> obj list \<Rightarrow> pyval \<Rightarrow> pyval \<Rightarrow> error + pyval" where
  "call_validate B os schema x =
     (case schema of
        Data d \<Rightarrow> Inl AttributeError
      | Ref a \<Rightarrow>
          (case lookup os a of
             Some (ExtObj e) \<Rightarrow> validate e x
           | Some ob \<Rightarrow> inst_validate B a x
           | None \<Rightarrow> Inl AttributeError))"

text \<open>
  Calling a namespace value with positional arguments. The third equation is the body of
  \<^verbatim>\<open>patched\<close>:
  \<^verbatim>\<open>
    def patched(*args):
        assert len(args) == 2
        args_list = list(args)
        args_list[1] = schema.validate(args_list[1])
        old_init(*args_list)
  \<close>
  \<^verbatim>\<open>functools.wraps\<close> copies metadata of \<^verbatim>\<open>old_init\<close> onto \<^verbatim>\<open>patched\<close> and does not
  change what a call does.
\<close>

fun call :: "interp \<Rightarrow> obj list \<Rightarrow> nsval \<Rightarrow> pyval list \<Rightarrow> slots \<Rightarrow> error + slots" where
  "call B os (Val v) args s = Inl TypeError"
| "call B os (Fun f) args s =
     (if \<not> accepts f (length args) then Inl TypeError else body f args s)"
| "call B os (Patched schema old_init) args s =
     (if length args \<noteq> 2 then Inl AssertionError
      else case call_validate B os schema (args ! 1) of
             Inl e \<Rightarrow> Inl e
           | Inr r \<Rightarrow> call B os old_init (args[1 := r]) s)"


text \<open>
  \<^verbatim>\<open>type.__new__(mcs, name, bases, nmspc)\<close>: the name must be a string; when the
  interpreter has no objection to the name, the bases and the namespace, the class is a
  new object.
\<close>

definition type_new ::
  "interp \<Rightarrow> nsval \<Rightarrow> base list \<Rightarrow> nmspc \<Rightarrow> heap \<Rightarrow> (error + ref) \<times> heap" where
  "type_new B name bases ns h =
     (case name of
        Val (Data (DStr n)) \<Rightarrow>
          (case type_new_error B n bases ns of
             Some e \<Rightarrow> (Inl e, h)
           | None \<Rightarrow>
               (let (a, h') = alloc (ClassObj \<lparr>cls_name = n, cls_bases = bases, cls_dict = ns\<rparr>) h
                in (Inr a, h')))
      | _ \<Rightarrow> (Inl TypeError, h))"

text \<open>
  \<^verbatim>\<open>nmspc['__init__'] = patched\<close>: a dictionary keeps the position of a key it
  already has.
\<close>

fun dict_set :: "nmspc \<Rightarrow> string \<Rightarrow> nsval \<Rightarrow> nmspc" where
  "dict_set [] k v = [(k, v)]"
| "dict_set ((k', v') # ns) k v = (if k' = k then (k, v) # ns else (k', v') # dict_set ns k v)"

text \<open>
  \<^verbatim>\<open>if '__name__' in nmspc: name = nmspc['__name__']\<close>
\<close>

definition class_name :: "nmspc \<Rightarrow> string \<Rightarrow> nsval" where
  "class_name ns name =
     (case map_of ns ''__name__'' of Some n \<Rightarrow> n | None \<Rightarrow> Val (Data (DStr name)))"

text \<open>
  \<^verbatim>\<open>ValidatedMeta.__new__(mcs, name, bases, nmspc)\<close>, assertion by assertion
  (assertions are enabled, as they are unless Python runs with \<^verbatim>\<open>-O\<close>). The entry
  \<^verbatim>\<open>__schema__\<close> can be anything; a function fails the second assertion as plain data
  does.
\<close>

definition ValidatedMeta_new ::
  "interp \<Rightarrow> string \<Rightarrow> base list \<Rightarrow> nmspc \<Rightarrow> heap \<Rightarrow> (error + ref) \<times> heap" where
  "ValidatedMeta_new B name bases ns h =
     (case map_of ns ''__schema__'' of
        None \<Rightarrow> (Inl AssertionError, h)
      | Some sv \<Rightarrow>
          (case sv of
             Val schema \<Rightarrow>
               if \<not> schema_kind (objs h) schema then (Inl AssertionError, h)
               else
                 (case map_of ns ''__init__'' of
                    None \<Rightarrow> (Inl AssertionError, h)
                  | Some old_init \<Rightarrow>
                      type_new B (class_name ns name) bases
                        (dict_set ns ''__init__'' (Patched schema old_init)) h)
           | _ \<Rightarrow> (Inl AssertionError, h)))"

text \<open>
  \<^verbatim>\<open>ValidatedMeta.__str__(self)\<close>: \<^verbatim>\<open>self.__name__\<close> of a class is the name
  \<^verbatim>\<open>type.__new__\<close> was given.
\<close>

definition ValidatedMeta_str :: "heap \<Rightarrow> ref \<Rightarrow> error + string" where
  "ValidatedMeta_str h self =
     (case lookup (objs h) self of
        Some (ClassObj c) \<Rightarrow> Inr (''<schema-validated data: '' @ cls_name c @ ''>'')
      | _ \<Rightarrow> Inl TypeError)"

section \<open>The factory\<close>

text \<open>
  Modelled from the spec: the initializer of the transparent proxy (wrapt's ObjectProxy,
  not part of the repository), "an override of the constructor that stores into that
  slot": called with the receiver and a value, it stores the value into the receiver's
  \<^verbatim>\<open>__wrapped__\<close> slot.
\<close>

definition ObjectProxy_init :: "pyval list \<Rightarrow> slots \<Rightarrow> error + slots" where
  "ObjectProxy_init args s =
     (case args of
        [Ref self, w] \<Rightarrow> Inr (s(self \<mapsto> w))
      | _ \<Rightarrow> Inl TypeError)"

text \<open>
  \<^verbatim>\<open>
    def __init__(self, validated_data):
        super().__init__(validated_data)
  \<close>
\<close>

definition GenericWrappedData_init :: pyfunc where
  "GenericWrappedData_init =
     \<lparr>min_params = 2, max_params = Some 2,
      body = (\<lambda>args s. ObjectProxy_init [args ! 0, args ! 1] s)\<rparr>"

text \<open>
  The base of the class statement: \<^verbatim>\<open>ObjectProxy\<close>, a subclass of \<^verbatim>\<open>object\<close>.
\<close>

definition proxy_base :: base where
  "proxy_base = [ObjectProxy, OtherClass ''object'']"

text \<open>
  \<^verbatim>\<open>validated_by(schema, name)\<close>: the class statement hands the metaclass the class
  name, the base and the namespace of the body: what the class statement binds by itself
  (\<^verbatim>\<open>__module__\<close> and the docstring as \<^verbatim>\<open>__doc__\<close>), then \<^verbatim>\<open>__name__\<close>,
  \<^verbatim>\<open>__schema__\<close> and \<^verbatim>\<open>__init__\<close>. (The namespace also holds \<^verbatim>\<open>__qualname__\<close> and the
  cell of \<^verbatim>\<open>super()\<close>; the metaclass does not read them and \<^verbatim>\<open>type.__new__\<close> takes
  them out of the namespace of the class, so they are left out.) The parameter
  annotation is not enforced by Python.
\<close>

definition GenericWrappedData_body :: "interp \<Rightarrow> pyval \<Rightarrow> pyval \<Rightarrow> nmspc" where
  "GenericWrappedData_body B schema name =
     [(''__module__'', Val (Data (DStr (mod_name B)))),
      (''__doc__'', Val (Data (class_doc B))),
      (''__name__'', Val name),
      (''__schema__'', Val schema),
      (''__init__'', Fun GenericWrappedData_init)]"

definition validated_by :: "interp \<Rightarrow> pyval \<Rightarrow> pyval \<Rightarrow> heap \<Rightarrow> (error + ref) \<times> heap" where
  "validated_by B schema name h =
     ValidatedMeta_new B ''GenericWrappedData'' [proxy_base]
       (GenericWrappedData_body B schema name) h"

definition default_name :: pyval where
  "default_name = Data (DStr ''ValidatedData'')"

text \<open>
  The class the factory makes for a schema and a name: the body, with \<^verbatim>\<open>patched\<close> in the
  place of the initializer.
\<close>

definition generated_class :: "interp \<Rightarrow> pyval \<Rightarrow> string \<Rightarrow> class_obj" where
  "generated_class B schema n =
     \<lparr>cls_name = n, cls_bases = [proxy_base],
      cls_dict = dict_set (GenericWrappedData_body B schema (Data (DStr n))) ''__init__''
                   (Patched schema (Fun GenericWrappedData_init))\<rparr>"

section \<open>Constructing an instance\<close>

text \<open>
  \<^verbatim>\<open>T.__new__(T, *args)\<close>, the first half of a call of a class. A \<^verbatim>\<open>__new__\<close> of the
  class body is called with the class and the arguments (and is taken to return a new
  instance of the class when it returns). Without one, the \<^verbatim>\<open>__new__\<close> of the bases is
  inherited: that of ObjectProxy alone takes whatever arguments and leaves them to
  \<^verbatim>\<open>__init__\<close>; for other bases it is the interpreter's.
\<close>

definition call_new ::
  "interp \<Rightarrow> obj list \<Rightarrow> nmspc \<Rightarrow> base list \<Rightarrow> ref \<Rightarrow> pyval list \<Rightarrow> slots \<Rightarrow> error + slots" where
  "call_new B os ns bases T args s =
     (case map_of ns ''__new__'' of
        Some f \<Rightarrow> call B os f (Ref T # args) s
      | None \<Rightarrow>
          if bases = [proxy_base] then Inr s
          else (case base_new_error B bases args of Some e \<Rightarrow> Inl e | None \<Rightarrow> Inr s))"

text \<open>
  \<^verbatim>\<open>T(*args)\<close> is \<^verbatim>\<open>type.__call__\<close>: \<^verbatim>\<open>T.__new__\<close> makes a new object of class \<open>T\<close>,
  then \<^verbatim>\<open>T.__init__\<close> is called on it with the arguments; the caller gets the object
  only if the initializer returns. A class made by \<^verbatim>\<open>ValidatedMeta\<close> has \<^verbatim>\<open>__init__\<close>
  in its own namespace (the metaclass asserts it), so the search through the base classes
  is never reached; the model raises TypeError there, and also when \<open>T\<close> is not the
  address of a class.
\<close>

definition type_call :: "interp \<Rightarrow> ref \<Rightarrow> pyval list \<Rightarrow> heap \<Rightarrow> (error + ref) \<times> heap" where
  "type_call B T args h =
     (case lookup (objs h) T of
        Some (ClassObj c) \<Rightarrow>
          (case call_new B (objs h) (cls_dict c) (cls_bases c) T args (wrapped h) of
             Inl e \<Rightarrow> (Inl e, h)
           | Inr s0 \<Rightarrow>
               (let (self, h1) = alloc (InstObj T) (h\<lparr>wrapped := s0\<rparr>)
                in case map_of (cls_dict c) ''__init__'' of
                     None \<Rightarrow> (Inl TypeError, h1)
                   | Some f \<Rightarrow>
                       (case call B (objs h1) f (Ref self # args) (wrapped h1) of
                          Inl e \<Rightarrow> (Inl e, h1)
                        | Inr s \<Rightarrow> (Inr self, h1\<lparr>wrapped := s\<rparr>))))
      | _ \<Rightarrow> (Inl TypeError, h))"

text \<open>
  The entry of a name in the own namespace of a class, \<^verbatim>\<open>T.__dict__.get(name)\<close>. For
  a name it binds that is no attribute of \<^verbatim>\<open>type\<close> itself (as \<^verbatim>\<open>__schema__\<close> and
  \<^verbatim>\<open>__init__\<close>), \<^verbatim>\<open>T.name\<close> is this entry: the own namespace comes before the
  bases.
\<close>

definition class_dict :: "heap \<Rightarrow> ref \<Rightarrow> string \<Rightarrow> nsval option" where
  "class_dict h T name =
     (case lookup (objs h) T of
        Some (ClassObj c) \<Rightarrow> map_of (cls_dict c) name
      | _ \<Rightarrow> None)"

text \<open>
  A class with ObjectProxy among the classes of its bases: its instances are proxies.
\<close>

definition is_proxy :: "heap \<Rightarrow> ref \<Rightarrow> bool" where
  "is_proxy h T =
     (case lookup (objs h) T of
        Some (ClassObj c) \<Rightarrow> ObjectProxy \<in> set (concat (cls_bases c))
      | _ \<Rightarrow> False)"

text \<open>
  \<^verbatim>\<open>type(x) is T\<close> for an object of the heap.
\<close>

definition type_is :: "heap \<Rightarrow> ref \<Rightarrow> ref \<Rightarrow> bool" where
  "type_is h a T = (lookup (objs h) a = Some (InstObj T))"

section \<open>The transparent proxy\<close>

text \<open>
  Modelled from the spec: the operations of the language on an ordinary value (reading an
  attribute, comparing, indexing, adding). They are what an operation on the validated
  result \<open>r\<close> itself does, and are left arbitrary.
\<close>

record lang =
  getattr_of :: "pyval \<Rightarrow> string \<Rightarrow> error + pyval"
  eq_of :: "pyval \<Rightarrow> pyval \<Rightarrow> error + pyval"
  getitem_of :: "pyval \<Rightarrow> pyval \<Rightarrow> error + pyval"
  add_of :: "pyval \<Rightarrow> pyval \<Rightarrow> error + pyval"

text \<open>
  Modelled from the spec: the transparent proxy (wrapt's ObjectProxy, not part of the
  repository), "an object wrapper that forwards every operation -- attribute get/set, item
  get/set, arithmetic, comparisons, iteration -- to an inner value, except for a small set
  of identity members", "with an explicit, distinctly-named internal slot for the wrapped
  value". What is forwarded goes to the content of the slot; a proxy whose slot was never
  set raises.
\<close>

definition forward :: "heap \<Rightarrow> ref \<Rightarrow> (pyval \<Rightarrow> error + 'a) \<Rightarrow> error + 'a" where
  "forward h self f = (case wrapped h self of None \<Rightarrow> Inl NotInitialized | Some r \<Rightarrow> f r)"

text \<open>
  Modelled from the spec: an operator on a proxy instance. Python takes the special
  method from the instance's type: a method of that name in the class namespace runs in
  the place of the proxy's (\<open>ByClass\<close>, its outcome is not modelled); otherwise the
  proxy's own method forwards the operator to the wrapped value (\<open>Forwarded\<close>). An
  object that is no proxy instance has the operators of its own type, which are not
  modelled (\<open>NotProxy\<close>).
\<close>

datatype outcome = ByClass nsval | NotProxy | Forwarded "error + pyval"

definition proxy_op ::
  "heap \<Rightarrow> ref \<Rightarrow> string \<Rightarrow> (pyval \<Rightarrow> error + pyval) \<Rightarrow> outcome" where
  "proxy_op h self meth f =
     (case lookup (objs h) self of
        Some (InstObj T) \<Rightarrow>
          (case class_dict h T meth of
             Some m \<Rightarrow> ByClass m
           | None \<Rightarrow> if is_proxy h T then Forwarded (forward h self f) else NotProxy)
      | _ \<Rightarrow> NotProxy)"

definition proxy_eq :: "lang \<Rightarrow> heap \<Rightarrow> ref \<Rightarrow> pyval \<Rightarrow> outcome" where
  "proxy_eq L h self x = proxy_op h self ''__eq__'' (\<lambda>r. eq_of L r x)"

definition proxy_getitem :: "lang \<Rightarrow> heap \<Rightarrow> ref \<Rightarrow> pyval \<Rightarrow> outcome" where
  "proxy_getitem L h self k = proxy_op h self ''__getitem__'' (\<lambda>r. getitem_of L r k)"

definition proxy_add :: "lang \<Rightarrow> heap \<Rightarrow> ref \<Rightarrow> pyval \<Rightarrow> outcome" where
  "proxy_add L h self x = proxy_op h self ''__add__'' (\<lambda>r. add_of L r x)"

text \<open>
  Reading an attribute of an ordinary value.
\<close>

definition value_getattr :: "lang \<Rightarrow> pyval \<Rightarrow> string \<Rightarrow> error + attr" where
  "value_getattr L r name = map_sum id Attr (getattr_of L r name)"

text \<open>
  Modelled from the spec: reading an attribute of a proxy instance. Python looks the name
  up on the instance's type first: a name of the class namespace is answered by the
  class (the class docstring in the source: "Users may access the schema used to
  validate the data by accessing the .__schema__ member variable"); then come the slot
  and the other names the type answers itself; every remaining name is forwarded to the
  wrapped value. What an object that is no proxy instance answers for a name its class
  namespace does not bind is not modelled (\<open>None\<close>).
\<close>

definition proxy_getattr ::
  "interp \<Rightarrow> lang \<Rightarrow> heap \<Rightarrow> ref \<Rightarrow> string \<Rightarrow> (error + attr) option" where
  "proxy_getattr B L h self name =
     (case lookup (objs h) self of
        Some (InstObj T) \<Rightarrow>
          (case class_dict h T name of
             Some (Val v) \<Rightarrow> Some (Inr (Attr v))
           | Some f \<Rightarrow> Some (Inr (Bound f self))
           | None \<Rightarrow>
               if \<not> is_proxy h T then None
               else if name = ''__wrapped__'' then Some (forward h self (\<lambda>r. Inr (Attr r)))
               else (case type_own B name (wrapped h self) self of
                       Some res \<Rightarrow> Some res
                     | None \<Rightarrow> Some (forward h self (\<lambda>r. value_getattr L r name))))
      | _ \<Rightarrow> None)"

section \<open>Client programs\<close>






definition start :: "ext_obj list \<Rightarrow> heap" where
  "start es = \<lparr>objs = map ExtObj es, wrapped = Map.empty\<rparr>"





section \<open>Example objects\<close>

text \<open>
  The docstring of \<^verbatim>\<open>GenericWrappedData\<close>, as it stands between the quotes in the
  source.
\<close>

definition GenericWrappedData_doc :: string where
  "GenericWrappedData_doc =
     ''\<newline>'' @
     ''        This class serves as a wrapper for schema-validated data.\<newline>'' @
     ''        Data passed into the constructor will be validated by the provided schema, and the result of .validate will\<newline>'' @
     ''            be set onto this object's .data member variable.\<newline>'' @
     ''        Because this object inherits ObjectProxy, this wrapper will be near-completely transparent.  All arithmetic,\<newline>'' @
     ''            subscripting, and mutation operations on this object will be passed down to the internal object.\<newline>'' @
     ''            Thus, users of this object oftentimes don't need to be aware of the wrapper at all.\<newline>'' @
     ''        Users may access the schema used to validate the data by accessing the .__schema__ member variable.\<newline>'' @
     ''        ''"

text \<open>
  An interpreter to run the examples with. It agrees with CPython on them: a name with a
  NUL and a base listed twice make no class, the module is loaded as
  \<^verbatim>\<open>validated_data\<close>, an integer has no \<^verbatim>\<open>validate\<close>, and \<^verbatim>\<open>__enter__\<close> and
  \<^verbatim>\<open>__exit__\<close> are members of the proxy. What it says of other names, bases and
  objects is not used.
\<close>

definition py :: interp where
  "py =
     \<lparr>type_new_error = (\<lambda>n bases ns.
                          if CHR 0x00 \<in> set n then Some ValueError
                          else if \<not> distinct bases then Some TypeError
                          else None),
      base_new_error = (\<lambda>bases args. None),
      inst_validate = (\<lambda>a x. Inl AttributeError),
      mod_name = ''validated_data'',
      class_doc = DStr GenericWrappedData_doc,
      type_own = (\<lambda>name w self.
                     if name = ''__enter__'' \<or> name = ''__exit__''
                     then Some (Inr (ProxyMember name self))
                     else None)\<rparr>"

text \<open>
  \<^verbatim>\<open>Schema(Use(abs))\<close> on integers: it returns the absolute value, and rejects what is
  not an integer.
\<close>

definition abs_schema :: ext_obj where
  "abs_schema =
     \<lparr>mro = [Schema, OtherClass ''object''],
      validate = (\<lambda>v. case v of
                         Data (DInt n) \<Rightarrow> Inr (Data (DInt \<bar>n\<bar>))
                       | _ \<Rightarrow> Inl (SchemaError ''abs''))\<rparr>"

text \<open>
  \<^verbatim>\<open>And(int, lambda n: 0 < n)\<close>: a positive integer.
\<close>

definition pos_schema :: ext_obj where
  "pos_schema =
     \<lparr>mro = [And, OtherClass ''object''],
      validate = (\<lambda>v. case v of
                         Data (DInt n) \<Rightarrow>
                           if 0 < n then Inr v else Inl (SchemaError ''not positive'')
                       | _ \<Rightarrow> Inl (SchemaError ''not an int''))\<rparr>"

text \<open>
  An object that validates and is no schema combinator, as \<^verbatim>\<open>Use(abs)\<close> alone.
\<close>

definition use_abs :: ext_obj where
  "use_abs = \<lparr>mro = [OtherClass ''Use'', OtherClass ''object''], validate = validate abs_schema\<rparr>"

definition heap0 :: heap where
  "heap0 = start [abs_schema, pos_schema, use_abs]"

text \<open>
  \<^verbatim>\<open>T = validated_by(Schema(Use(abs)))\<close>, then \<^verbatim>\<open>x = T(-5)\<close>.
\<close>

definition heap1 :: heap where
  "heap1 = snd (validated_by py (Ref 0) default_name heap0)"

definition heap2 :: heap where
  "heap2 = snd (type_call py 3 [Data (DInt (- 5))] heap1)"


text \<open>
  The operations on integers, as far as the examples go: an integer has the attribute
  \<^verbatim>\<open>real\<close> (itself) and none of \<^verbatim>\<open>__name__\<close>, \<^verbatim>\<open>__module__\<close> and \<^verbatim>\<open>__enter__\<close>,
  integers are added, and an integer cannot be indexed. What it says of other names is
  not used.
\<close>

definition int_lang :: lang where
  "int_lang =
     \<lparr>getattr_of = (\<lambda>v name. case v of
                        Data (DInt n) \<Rightarrow> if name = ''real'' then Inr v else Inl AttributeError
                      | _ \<Rightarrow> Inl AttributeError),
      eq_of = (\<lambda>v w. Inr (Data (DInt (if v = w then 1 else 0)))),
      getitem_of = (\<lambda>v k. Inl TypeError),
      add_of = (\<lambda>v w. case (v, w) of
                        (Data (DInt a), Data (DInt b)) \<Rightarrow> Inr (Data (DInt (a + b)))
                      | _ \<Rightarrow> Inl TypeError)\<rparr>"





definition body_no_schema :: nmspc where
  "body_no_schema = [(''__init__'', Fun GenericWrappedData_init)]"

definition body_plain_schema :: nmspc where
  "body_plain_schema =
     [(''__schema__'', Val (Data (DInt 3))), (''__init__'', Fun GenericWrappedData_init)]"

definition body_use_schema :: nmspc where
  "body_use_schema =
     [(''__schema__'', Val (Ref 2)), (''__init__'', Fun GenericWrappedData_init)]"

definition body_no_init :: nmspc where
  "body_no_init = [(''__schema__'', Val (Ref 1))]"

definition body_and_schema :: nmspc where
  "body_and_schema = [(''__schema__'', Val (Ref 1)), (''__init__'', Fun GenericWrappedData_init)]"

section \<open>Facts about the heap and the namespace\<close>

lemma lookup_append_old: "a < length os \<Longrightarrow> lookup (os @ zs) a = lookup os a"
  by (simp add: lookup_def nth_append)

lemma lookup_new: "lookup (os @ [x]) (length os) = Some x"
  by (simp add: lookup_def)

lemma lookup_Some_less: "lookup os a = Some x \<Longrightarrow> a < length os"
  by (simp add: lookup_def split: if_splits)

lemma lookup_prefix:
  assumes "prefix os os'" and "lookup os a = Some x"
  shows "lookup os' a = Some x"
proof -
  from assms(1) obtain zs where "os' = os @ zs" by (auto simp: prefix_def)
  with assms(2) show ?thesis
    using lookup_Some_less [OF assms(2)] by (simp add: lookup_append_old)
qed


lemma lookup_snoc_old: "lookup os a = Some y \<Longrightarrow> lookup (os @ [x]) a = Some y"
  by (rule lookup_prefix [of os]) simp_all

lemma heap_objs_update: "h\<lparr>objs := x\<rparr> = \<lparr>objs = x, wrapped = wrapped h\<rparr>"
  by (cases h) simp


lemma type_mro_prefix:
  assumes "type_mro os v \<noteq> []" and "prefix os os'"
  shows "type_mro os' v = type_mro os v"
proof (cases v)
  case (Data d)
  then show ?thesis by (simp add: type_mro_def)
next
  case (Ref a)
  show ?thesis
  proof (cases "lookup os a")
    case None
    with Ref assms(1) show ?thesis by (simp add: type_mro_def)
  next
    case (Some ob)
    note a = lookup_prefix [OF assms(2) Some]
    show ?thesis
    proof (cases ob)
      case (ExtObj e)
      with Ref Some a show ?thesis by (simp add: type_mro_def)
    next
      case (ClassObj c)
      with Ref Some a show ?thesis by (simp add: type_mro_def)
    next
      case (InstObj T)
      show ?thesis
      proof (cases "lookup os T")
        case None
        with Ref Some InstObj assms(1) show ?thesis by (simp add: type_mro_def)
      next
        case T: (Some ob')
        from lookup_prefix [OF assms(2) T] Ref Some a InstObj T
        show ?thesis by (simp add: type_mro_def)
      qed
    qed
  qed
qed

lemma schema_kind_mro: "schema_kind os schema \<Longrightarrow> type_mro os schema \<noteq> []"
  by (auto simp: schema_kind_def issubclass_def)

lemma schema_kind_prefix:
  assumes "schema_kind os schema" and "prefix os os'"
  shows "schema_kind os' schema"
  using assms type_mro_prefix [OF schema_kind_mro [OF assms(1)] assms(2)]
  by (simp add: schema_kind_def)

lemma schema_kind_ref:
  assumes "schema_kind os schema"
  shows "\<exists>a ob. schema = Ref a \<and> lookup os a = Some ob"
proof (cases schema)
  case (Data d)
  with assms show ?thesis by (simp add: schema_kind_def issubclass_def type_mro_def)
next
  case (Ref a)
  with assms show ?thesis
    by (cases "lookup os a") (simp_all add: schema_kind_def issubclass_def type_mro_def)
qed

lemma call_validate_prefix:
  assumes "schema_kind os schema" and "prefix os os'"
  shows "call_validate B os' schema v = call_validate B os schema v"
proof -
  from schema_kind_ref [OF assms(1)] obtain a ob
    where s: "schema = Ref a" and l: "lookup os a = Some ob" by blast
  from lookup_prefix [OF assms(2) l] show ?thesis
    by (simp add: call_validate_def s l)
qed

lemma generated_dict:
  "cls_dict (generated_class B schema n) =
     [(''__module__'', Val (Data (DStr (mod_name B)))),
      (''__doc__'', Val (Data (class_doc B))),
      (''__name__'', Val (Data (DStr n))),
      (''__schema__'', Val schema),
      (''__init__'', Patched schema (Fun GenericWrappedData_init))]"
  by (simp add: generated_class_def GenericWrappedData_body_def)

lemma generated_class_parts:
  "cls_name (generated_class B schema n) = n"
  "cls_bases (generated_class B schema n) = [proxy_base]"
  "map_of (cls_dict (generated_class B schema n)) ''__init__'' =
     Some (Patched schema (Fun GenericWrappedData_init))"
  "map_of (cls_dict (generated_class B schema n)) ''__schema__'' = Some (Val schema)"
  "map_of (cls_dict (generated_class B schema n)) ''__name__'' = Some (Val (Data (DStr n)))"
  "map_of (cls_dict (generated_class B schema n)) ''__new__'' = None"
  "map_of (cls_dict (generated_class B schema n)) ''__eq__'' = None"
  "map_of (cls_dict (generated_class B schema n)) ''__getitem__'' = None"
  "map_of (cls_dict (generated_class B schema n)) ''__add__'' = None"
  by (simp_all add: generated_dict) (simp_all add: generated_class_def)


lemma validated_by_result:
  "validated_by B schema name h =
     (if schema_kind (objs h) schema
      then (case name of
              Data (DStr n) \<Rightarrow>
                (case type_new_error B n [proxy_base] (cls_dict (generated_class B schema n)) of
                   Some e \<Rightarrow> (Inl e, h)
                 | None \<Rightarrow>
                     (Inr (length (objs h)),
                      h\<lparr>objs := objs h @ [ClassObj (generated_class B schema n)]\<rparr>))
            | _ \<Rightarrow> (Inl TypeError, h))
      else (Inl AssertionError, h))"
  by (simp add: validated_by_def ValidatedMeta_new_def GenericWrappedData_body_def
        class_name_def type_new_def alloc_def generated_class_def
        split: pyval.splits pydata.splits option.splits)

lemma validated_by_Inr:
  assumes "validated_by B schema name h = (Inr T, h1)"
  obtains n where "schema_kind (objs h) schema" and "name = Data (DStr n)"
    and "T = length (objs h)"
    and "h1 = h\<lparr>objs := objs h @ [ClassObj (generated_class B schema n)]\<rparr>"
  using assms
  by (auto simp: validated_by_result split: if_splits pyval.splits pydata.splits option.splits)


text \<open>
  Constructing from a class whose initializer is \<^verbatim>\<open>patched\<close>, once \<^verbatim>\<open>__new__\<close> has
  returned: the outcomes.
\<close>

lemma type_call_patched:
  assumes "lookup (objs h) T = Some (ClassObj c)"
    and "map_of (cls_dict c) ''__init__'' = Some (Patched schema old_init)"
    and "call_new B (objs h) (cls_dict c) (cls_bases c) T args (wrapped h) = Inr s0"
  shows "type_call B T args h =
     (if length args \<noteq> 1
      then (Inl AssertionError, \<lparr>objs = objs h @ [InstObj T], wrapped = s0\<rparr>)
      else case call_validate B (objs h @ [InstObj T]) schema (args ! 0) of
             Inl e \<Rightarrow> (Inl e, \<lparr>objs = objs h @ [InstObj T], wrapped = s0\<rparr>)
           | Inr r \<Rightarrow>
               (case call B (objs h @ [InstObj T]) old_init [Ref (length (objs h)), r] s0 of
                  Inl e \<Rightarrow> (Inl e, \<lparr>objs = objs h @ [InstObj T], wrapped = s0\<rparr>)
                | Inr s \<Rightarrow> (Inr (length (objs h)), \<lparr>objs = objs h @ [InstObj T], wrapped = s\<rparr>)))"
proof (cases args)
  case Nil
  with assms show ?thesis by (simp add: type_call_def alloc_def)
next
  case (Cons v vs)
  with assms show ?thesis
    by (cases vs) (simp_all add: type_call_def alloc_def split: sum.splits)
qed

lemma call_GenericWrappedData_init:
  "call B os (Fun GenericWrappedData_init) [Ref self, r] s = Inr (s(self \<mapsto> r))"
  by (simp add: GenericWrappedData_init_def ObjectProxy_init_def accepts_def)

lemma call_new_generated:
  "call_new B os (cls_dict (generated_class B schema n)) (cls_bases (generated_class B schema n))
     T args s = Inr s"
  by (simp add: call_new_def generated_class_parts)

lemma type_call_generated:
  assumes "lookup (objs h) T = Some (ClassObj (generated_class B schema n))"
  shows "type_call B T args h =
     (if length args \<noteq> 1
      then (Inl AssertionError, \<lparr>objs = objs h @ [InstObj T], wrapped = wrapped h\<rparr>)
      else case call_validate B (objs h @ [InstObj T]) schema (args ! 0) of
             Inl e \<Rightarrow> (Inl e, \<lparr>objs = objs h @ [InstObj T], wrapped = wrapped h\<rparr>)
           | Inr r \<Rightarrow>
               (Inr (length (objs h)),
                \<lparr>objs = objs h @ [InstObj T], wrapped = (wrapped h)(length (objs h) \<mapsto> r)\<rparr>))"
  by (simp add: type_call_patched [OF assms generated_class_parts(3) call_new_generated]
        call_GenericWrappedData_init del: call.simps split: sum.splits)

text \<open>
  A type the factory returned is still the same class in every later heap, and its schema
  still validates the same way there.
\<close>

lemma generated_later:
  assumes "validated_by B schema name h = (Inr T, h1)" and "prefix (objs h1) (objs h2)"
  shows "\<exists>n. name = Data (DStr n) \<and>
    lookup (objs h2) T = Some (ClassObj (generated_class B schema n)) \<and>
    (\<forall>v. call_validate B (objs h2 @ [InstObj T]) schema v = call_validate B (objs h) schema v)"
proof -
  from assms(1) obtain n where k: "schema_kind (objs h) schema" and nm: "name = Data (DStr n)"
    and T: "T = length (objs h)"
    and h1: "h1 = h\<lparr>objs := objs h @ [ClassObj (generated_class B schema n)]\<rparr>"
    by (rule validated_by_Inr)
  have "lookup (objs h1) T = Some (ClassObj (generated_class B schema n))"
    by (simp add: T h1 lookup_new)
  with assms(2) have l: "lookup (objs h2) T = Some (ClassObj (generated_class B schema n))"
    by (rule lookup_prefix)
  have "prefix (objs h) (objs h1)" by (simp add: h1)
  with assms(2) have "prefix (objs h) (objs h2 @ [InstObj T])"
    by (meson prefix_order.trans prefixI)
  with k have "\<forall>v. call_validate B (objs h2 @ [InstObj T]) schema v =
      call_validate B (objs h) schema v"
    by (blast intro: call_validate_prefix)
  with nm l show ?thesis by blast
qed

section \<open>Facts about the examples\<close>

lemma schema_kind_heap0: "schema_kind (objs heap0) (Ref 0)" "schema_kind (objs heap0) (Ref 1)"
  by (simp_all add: schema_kind_def issubclass_def type_mro_def lookup_def heap0_def start_def
        abs_schema_def pos_schema_def)

lemma length_heap0: "length (objs heap0) = 3"
  by (simp add: heap0_def start_def)

lemma py_makes_class:
  "type_new_error py ''ValidatedData'' [b] ns = None"
  "type_new_error py ''Foo'' [b] ns = None"
  "type_new_error py ''Bad'' [b] ns = None"
  "type_new_error py ''WithNew'' [b] ns = None"
  "type_new_error py ''D'' [b] ns = None"
  by (simp_all add: py_def)

lemma heap1_eq:
  "heap1 = heap0\<lparr>objs := objs heap0 @ [ClassObj (generated_class py (Ref 0) ''ValidatedData'')]\<rparr>"
  by (simp add: heap1_def validated_by_result schema_kind_heap0 default_name_def py_makes_class)

lemma validated_by_heap0: "validated_by py (Ref 0) default_name heap0 = (Inr 3, heap1)"
  by (simp add: heap1_eq validated_by_result schema_kind_heap0 default_name_def py_makes_class
        length_heap0)

lemma length_heap1: "length (objs heap1) = 4"
  by (simp add: heap1_eq length_heap0)

lemma wrapped_heap1: "wrapped heap1 = Map.empty"
  by (simp add: heap1_eq heap0_def start_def)

lemma call_validate_heap0:
  "call_validate B (objs heap0) (Ref 0) (Data (DInt n)) = Inr (Data (DInt \<bar>n\<bar>))"
  "call_validate B (objs heap0) (Ref 0) (Data (DStr s)) = Inl (SchemaError ''abs'')"
  by (simp_all add: call_validate_def lookup_def heap0_def start_def abs_schema_def)

lemma lookup_heap1:
  "lookup (objs heap1) 3 = Some (ClassObj (generated_class py (Ref 0) ''ValidatedData''))"
  using lookup_new [of "objs heap0"] by (simp add: heap1_eq length_heap0)

lemma call_validate_heap1:
  "call_validate B (objs heap1 @ [InstObj 3]) (Ref 0) (Data (DInt n)) = Inr (Data (DInt \<bar>n\<bar>))"
  "call_validate B (objs heap1 @ [InstObj 3]) (Ref 0) (Data (DStr s)) = Inl (SchemaError ''abs'')"
  by (simp_all add: call_validate_def lookup_def heap1_eq heap0_def start_def abs_schema_def)

lemma heap2_eq:
  "heap2 = \<lparr>objs = objs heap1 @ [InstObj 3], wrapped = [4 \<mapsto> Data (DInt 5)]\<rparr>"
  by (simp add: heap2_def type_call_generated [OF lookup_heap1] call_validate_heap1
        length_heap1 wrapped_heap1)

lemma type_call_heap1:
  "type_call py 3 [Data (DInt (- 5))] heap1 = (Inr 4, heap2)"
  by (simp add: heap2_eq type_call_generated [OF lookup_heap1] call_validate_heap1
        length_heap1 wrapped_heap1)

lemma heap2_parts:
  "lookup (objs heap2) 4 = Some (InstObj 3)"
  "lookup (objs heap2) 3 = Some (ClassObj (generated_class py (Ref 0) ''ValidatedData''))"
  "wrapped heap2 4 = Some (Data (DInt 5))"
  "length (objs heap2) = 5"
proof -
  show "lookup (objs heap2) 4 = Some (InstObj 3)"
    using lookup_new [of "objs heap1" "InstObj 3"] by (simp add: heap2_eq length_heap1)
  show "lookup (objs heap2) 3 = Some (ClassObj (generated_class py (Ref 0) ''ValidatedData''))"
    using lookup_snoc_old [OF lookup_heap1] by (simp add: heap2_eq)
  show "wrapped heap2 4 = Some (Data (DInt 5))" by (simp add: heap2_eq)
  show "length (objs heap2) = 5" by (simp add: heap2_eq length_heap1)
qed

section \<open>Construction\<close>

text \<open>
  C1. Let \<open>T\<close> be a type the factory returned for \<open>schema\<close>, in any later heap. If
  \<^verbatim>\<open>schema.validate(v)\<close> returns \<open>r\<close>, then \<^verbatim>\<open>T(v)\<close> returns a new instance of \<open>T\<close>,
  and the slot of that instance holds \<open>r\<close>, the result of the validation, whatever \<open>v\<close>
  was.
\<close>

theorem construct_wraps_result:
  assumes "validated_by B schema name h = (Inr T, h1)"
    and "prefix (objs h1) (objs h2)"
    and "call_validate B (objs h) schema v = Inr r"
  shows "type_call B T [v] h2 =
           (Inr (length (objs h2)),
            \<lparr>objs = objs h2 @ [InstObj T], wrapped = (wrapped h2)(length (objs h2) \<mapsto> r)\<rparr>)"
proof -
  from generated_later [OF assms(1,2)] obtain n
    where l: "lookup (objs h2) T = Some (ClassObj (generated_class B schema n))"
      and v: "\<forall>v. call_validate B (objs h2 @ [InstObj T]) schema v =
                call_validate B (objs h) schema v"
    by blast
  show ?thesis by (simp add: type_call_generated [OF l] v assms(3))
qed

theorem construct_wraps_result_witness:
  "type_call py 3 [Data (DInt (- 5))] heap1 =
     (Inr 4, \<lparr>objs = objs heap1 @ [InstObj 3], wrapped = [4 \<mapsto> Data (DInt 5)]\<rparr>)"
proof -
  have p: "prefix (objs heap1) (objs heap1)" by simp
  show ?thesis
    using construct_wraps_result [OF validated_by_heap0 p call_validate_heap0(1), of "- 5"]
    by (simp add: length_heap1 wrapped_heap1)
qed

text \<open>
  C2. Let \<open>T\<close> be a type the factory returned for \<open>schema\<close>, in any later heap. If
  \<^verbatim>\<open>schema.validate(v)\<close> raises \<open>e\<close>, then \<^verbatim>\<open>T(v)\<close> raises the same \<open>e\<close>: the caller
  gets no instance, and no slot is written (the receiver that was allocated for the call
  stays uninitialised, and nobody holds its address).
\<close>

theorem construct_propagates_error:
  assumes "validated_by B schema name h = (Inr T, h1)"
    and "prefix (objs h1) (objs h2)"
    and "call_validate B (objs h) schema v = Inl e"
  shows "type_call B T [v] h2 = (Inl e, \<lparr>objs = objs h2 @ [InstObj T], wrapped = wrapped h2\<rparr>)"
proof -
  from generated_later [OF assms(1,2)] obtain n
    where l: "lookup (objs h2) T = Some (ClassObj (generated_class B schema n))"
      and v: "\<forall>v. call_validate B (objs h2 @ [InstObj T]) schema v =
                call_validate B (objs h) schema v"
    by blast
  show ?thesis by (simp add: type_call_generated [OF l] v assms(3))
qed

theorem construct_propagates_error_witness:
  "type_call py 3 [Data (DStr ''five'')] heap1 =
     (Inl (SchemaError ''abs''), \<lparr>objs = objs heap1 @ [InstObj 3], wrapped = Map.empty\<rparr>)"
proof -
  have p: "prefix (objs heap1) (objs heap1)" by simp
  show ?thesis
    using construct_propagates_error
      [OF validated_by_heap0 p call_validate_heap0(2), of "''five''"]
    by (simp add: wrapped_heap1)
qed

section \<open>The generated type\<close>

text \<open>
  C5. A type \<open>T\<close> the factory returns has the class attribute \<^verbatim>\<open>T.__schema__\<close> (the
  spec's \<^verbatim>\<open>T.schema\<close>), and it is the reference that was passed in: the same address,
  no copy (the heap gains the new class and nothing else), and it stays so in every later
  heap. The factory returns a type for every schema object and every string name that
  \<^verbatim>\<open>type.__new__\<close> takes.
\<close>

theorem schema_attribute_is_schema:
  "(validated_by B schema name h = (Inr T, h1) \<longrightarrow>
      class_dict h1 T ''__schema__'' = Some (Val schema) \<and>
      (\<exists>c. h1 = \<lparr>objs = objs h @ [ClassObj c], wrapped = wrapped h\<rparr>) \<and>
      (prefix (objs h1) (objs h2) \<longrightarrow> class_dict h2 T ''__schema__'' = Some (Val schema))) \<and>
   (schema_kind (objs h) schema \<and>
      type_new_error B n [proxy_base] (cls_dict (generated_class B schema n)) = None \<longrightarrow>
      fst (validated_by B schema (Data (DStr n)) h) = Inr (length (objs h)))"
proof (intro conjI impI)
  assume a: "validated_by B schema name h = (Inr T, h1)"
  then obtain m where T: "T = length (objs h)"
    and h1: "h1 = h\<lparr>objs := objs h @ [ClassObj (generated_class B schema m)]\<rparr>"
    by (rule validated_by_Inr)
  have l: "lookup (objs h1) T = Some (ClassObj (generated_class B schema m))"
    by (simp add: T h1 lookup_new)
  then show "class_dict h1 T ''__schema__'' = Some (Val schema)"
    by (simp add: class_dict_def generated_class_parts)
  show "\<exists>c. h1 = \<lparr>objs = objs h @ [ClassObj c], wrapped = wrapped h\<rparr>"
    by (intro exI [of _ "generated_class B schema m"]) (simp add: h1)
  assume "prefix (objs h1) (objs h2)"
  from lookup_prefix [OF this l]
  show "class_dict h2 T ''__schema__'' = Some (Val schema)"
    by (simp add: class_dict_def generated_class_parts)
next
  assume "schema_kind (objs h) schema \<and>
      type_new_error B n [proxy_base] (cls_dict (generated_class B schema n)) = None"
  then show "fst (validated_by B schema (Data (DStr n)) h) = Inr (length (objs h))"
    by (simp add: validated_by_result)
qed

theorem schema_attribute_is_schema_witness:
  "fst (validated_by py (Ref 0) (Data (DStr ''Foo'')) heap0) = Inr 3 \<and>
   class_dict heap1 3 ''__schema__'' = Some (Val (Ref 0))"
proof -
  from schema_attribute_is_schema
    [of py "Ref 0" default_name heap0 3 heap1 heap1 "''Foo''"]
  show ?thesis
    by (simp add: validated_by_heap0 schema_kind_heap0 py_makes_class length_heap0)
qed

text \<open>
  C8. When the factory returns a type for a name, the name is a string \<open>n\<close>, and
  displaying the type, then and in every later heap, gives the label
  \<^verbatim>\<open><schema-validated data: n>\<close>: the text "schema-validated data: " followed by the
  name, between angle brackets.
\<close>

theorem type_label:
  assumes "validated_by B schema name h = (Inr T, h1)"
    and "prefix (objs h1) (objs h2)"
  shows "\<exists>n. name = Data (DStr n) \<and>
           ValidatedMeta_str h2 T = Inr (''<'' @ (''schema-validated data: '' @ n) @ ''>'')"
proof -
  from generated_later [OF assms] obtain n where "name = Data (DStr n)"
    and "lookup (objs h2) T = Some (ClassObj (generated_class B schema n))"
    by blast
  then show ?thesis by (simp add: ValidatedMeta_str_def generated_class_parts)
qed

theorem type_label_witness:
  "validated_by py (Ref 0) (Data (DStr ''Foo'')) heap0 =
     (Inr 3, snd (validated_by py (Ref 0) (Data (DStr ''Foo'')) heap0)) \<and>
   ValidatedMeta_str (snd (validated_by py (Ref 0) (Data (DStr ''Foo'')) heap0)) 3 =
     Inr ''<schema-validated data: Foo>''"
proof -
  have f: "fst (validated_by py (Ref 0) (Data (DStr ''Foo'')) heap0) = Inr 3"
    by (simp add: validated_by_result schema_kind_heap0 py_makes_class length_heap0)
  then have d: "validated_by py (Ref 0) (Data (DStr ''Foo'')) heap0 =
     (Inr 3, snd (validated_by py (Ref 0) (Data (DStr ''Foo'')) heap0))"
    by (simp add: prod_eq_iff)
  have p: "prefix (objs (snd (validated_by py (Ref 0) (Data (DStr ''Foo'')) heap0)))
             (objs (snd (validated_by py (Ref 0) (Data (DStr ''Foo'')) heap0)))"
    by simp
  from type_label [OF d p] have
    "ValidatedMeta_str (snd (validated_by py (Ref 0) (Data (DStr ''Foo'')) heap0)) 3 =
       Inr ''<schema-validated data: Foo>''"
    by auto
  with d show ?thesis by (rule conjI)
qed

section \<open>Two calls of the factory\<close>

text \<open>
  C9. Two calls of the factory that return types, the second in any heap later than the
  first, whatever the two schemas and names (the same object and the same name too):
  the second type is a new object at a fresh address, different from the first, which is
  still what it was; the second call changes nothing else in the heap, and nothing but
  the heap is read or written, so no type is kept and handed out again. No object has
  both types.
\<close>

theorem factory_types_distinct:
  assumes "validated_by B s1 n1 h = (Inr T1, h1)"
    and "prefix (objs h1) (objs h2)"
    and "validated_by B s2 n2 h2 = (Inr T2, h3)"
  shows "T1 \<noteq> T2 \<and> T2 = length (objs h2) \<and>
         (\<exists>c. h3 = \<lparr>objs = objs h2 @ [ClassObj c], wrapped = wrapped h2\<rparr>) \<and>
         lookup (objs h3) T1 = lookup (objs h1) T1 \<and>
         (\<forall>a. type_is h3 a T1 \<longrightarrow> \<not> type_is h3 a T2)"
proof -
  from assms(1) obtain m1 where T1: "T1 = length (objs h)"
    and h1: "h1 = h\<lparr>objs := objs h @ [ClassObj (generated_class B s1 m1)]\<rparr>"
    by (rule validated_by_Inr)
  from assms(3) obtain m2 where T2: "T2 = length (objs h2)"
    and h3: "h3 = h2\<lparr>objs := objs h2 @ [ClassObj (generated_class B s2 m2)]\<rparr>"
    by (rule validated_by_Inr)
  have "length (objs h1) \<le> length (objs h2)" using assms(2) by (rule prefix_length_le)
  then have lt: "T1 < T2" by (simp add: T1 T2 h1)
  have l1: "lookup (objs h1) T1 = Some (ClassObj (generated_class B s1 m1))"
    by (simp add: T1 h1 lookup_new)
  have "prefix (objs h1) (objs h3)" using assms(2) by (simp add: h3 prefix_def) auto
  then have "lookup (objs h3) T1 = Some (ClassObj (generated_class B s1 m1))"
    using l1 by (rule lookup_prefix)
  with l1 have same: "lookup (objs h3) T1 = lookup (objs h1) T1" by simp
  have "\<exists>c. h3 = \<lparr>objs = objs h2 @ [ClassObj c], wrapped = wrapped h2\<rparr>"
    by (intro exI [of _ "generated_class B s2 m2"]) (simp add: h3)
  with lt T2 same show ?thesis by (auto simp: type_is_def)
qed

theorem factory_types_distinct_witness:
  "fst (validated_by py (Ref 0) default_name heap0) = Inr 3 \<and>
   fst (validated_by py (Ref 0) default_name heap1) = Inr 4 \<and>
   lookup (objs (snd (validated_by py (Ref 0) default_name heap1))) 3 = lookup (objs heap1) 3"
proof -
  have p: "prefix (objs heap1) (objs heap1)" by simp
  have k: "schema_kind (objs heap1) (Ref 0)"
    using schema_kind_heap0(1) by (rule schema_kind_prefix) (simp add: heap1_eq)
  have f: "fst (validated_by py (Ref 0) default_name heap1) = Inr 4"
    using k by (simp add: validated_by_result default_name_def length_heap1 py_makes_class)
  then have d: "validated_by py (Ref 0) default_name heap1 =
             (Inr 4, snd (validated_by py (Ref 0) default_name heap1))"
    by (simp add: prod_eq_iff)
  from factory_types_distinct [OF validated_by_heap0 p d] f validated_by_heap0
  show ?thesis by simp
qed

section \<open>Types defined under the metaclass\<close>



lemma ValidatedMeta_new_ok:
  assumes "map_of ns ''__schema__'' = Some (Val schema)" and "schema_kind (objs h) schema"
    and "map_of ns ''__init__'' = Some old_init"
    and "class_name ns name = Val (Data (DStr n))"
    and "type_new_error B n bases (dict_set ns ''__init__'' (Patched schema old_init)) = None"
  shows "ValidatedMeta_new B name bases ns h =
           (Inr (length (objs h)),
            \<lparr>objs = objs h @
               [ClassObj \<lparr>cls_name = n, cls_bases = bases,
                          cls_dict = dict_set ns ''__init__'' (Patched schema old_init)\<rparr>],
             wrapped = wrapped h\<rparr>)"
  using assms
  by (simp add: ValidatedMeta_new_def type_new_def alloc_def heap_objs_update)

lemma type_mro_heap0:
  "type_mro (objs heap0) (Ref (Suc 0)) = [And, OtherClass ''object'']"
  "type_mro (objs heap0) (Ref 2) = [OtherClass ''Use'', OtherClass ''object'']"
  "type_mro (objs heap0) (Data d) = []"
  by (simp_all add: type_mro_def lookup_def heap0_def start_def pos_schema_def use_abs_def)

lemma schema_kind_heap0_Suc: "schema_kind (objs heap0) (Ref (Suc 0))"
  using schema_kind_heap0(2) by simp



section \<open>The number of arguments\<close>




section \<open>Errors when a type is defined\<close>

text \<open>
  C7. A class body without \<^verbatim>\<open>__schema__\<close>, or whose \<^verbatim>\<open>__schema__\<close> is not an object
  of class Schema, And or Or (or of a subclass), or without \<^verbatim>\<open>__init__\<close>, raises
  AssertionError when the type is defined, and the heap is as before: no class and no
  instance was made. A body whose schema is a Schema, And or Or object (an And/Or
  composition, then), with an initializer, defines a type whenever \<^verbatim>\<open>type.__new__\<close>
  takes the name, the bases and the namespace.
\<close>

theorem definition_errors:
  "(map_of ns ''__schema__'' = None \<longrightarrow>
      ValidatedMeta_new B name bases ns h = (Inl AssertionError, h)) \<and>
   (map_of ns ''__schema__'' = Some sv \<and>
      (\<forall>schema. sv = Val schema \<longrightarrow> \<not> schema_kind (objs h) schema) \<longrightarrow>
      ValidatedMeta_new B name bases ns h = (Inl AssertionError, h)) \<and>
   (map_of ns ''__init__'' = None \<longrightarrow>
      ValidatedMeta_new B name bases ns h = (Inl AssertionError, h)) \<and>
   (map_of ns ''__schema__'' = Some (Val s) \<and> schema_kind (objs h) s \<and>
      map_of ns ''__init__'' = Some old_init \<and>
      class_name ns name = Val (Data (DStr n)) \<and>
      type_new_error B n bases (dict_set ns ''__init__'' (Patched s old_init)) = None \<longrightarrow>
      (\<exists>c. ValidatedMeta_new B name bases ns h =
             (Inr (length (objs h)), \<lparr>objs = objs h @ [ClassObj c], wrapped = wrapped h\<rparr>)))"
proof (intro conjI impI)
  assume "map_of ns ''__schema__'' = None"
  then show "ValidatedMeta_new B name bases ns h = (Inl AssertionError, h)"
    by (simp add: ValidatedMeta_new_def)
next
  assume "map_of ns ''__schema__'' = Some sv \<and>
    (\<forall>schema. sv = Val schema \<longrightarrow> \<not> schema_kind (objs h) schema)"
  then show "ValidatedMeta_new B name bases ns h = (Inl AssertionError, h)"
    by (cases sv) (simp_all add: ValidatedMeta_new_def)
next
  assume "map_of ns ''__init__'' = None"
  then show "ValidatedMeta_new B name bases ns h = (Inl AssertionError, h)"
    by (simp add: ValidatedMeta_new_def split: option.splits nsval.splits)
next
  assume a: "map_of ns ''__schema__'' = Some (Val s) \<and> schema_kind (objs h) s \<and>
      map_of ns ''__init__'' = Some old_init \<and>
      class_name ns name = Val (Data (DStr n)) \<and>
      type_new_error B n bases (dict_set ns ''__init__'' (Patched s old_init)) = None"
  with ValidatedMeta_new_ok [of ns s h old_init name n B bases]
  show "\<exists>c. ValidatedMeta_new B name bases ns h =
             (Inr (length (objs h)), \<lparr>objs = objs h @ [ClassObj c], wrapped = wrapped h\<rparr>)"
    by auto
qed

theorem definition_errors_witness:
  "ValidatedMeta_new py ''A'' [proxy_base] body_no_schema heap0 = (Inl AssertionError, heap0) \<and>
   ValidatedMeta_new py ''B'' [proxy_base] body_plain_schema heap0 = (Inl AssertionError, heap0) \<and>
   ValidatedMeta_new py ''B'' [proxy_base] body_use_schema heap0 = (Inl AssertionError, heap0) \<and>
   ValidatedMeta_new py ''C'' [proxy_base] body_no_init heap0 = (Inl AssertionError, heap0) \<and>
   fst (ValidatedMeta_new py ''D'' [proxy_base] body_and_schema heap0) = Inr 3"
proof -
  have k: "\<not> schema_kind (objs heap0) (Data (DInt 3))"
    by (simp add: schema_kind_def issubclass_def type_mro_heap0)
  have k': "\<not> schema_kind (objs heap0) (Ref 2)"
    by (simp add: schema_kind_def issubclass_def type_mro_heap0)
  have 1: "ValidatedMeta_new py ''A'' [proxy_base] body_no_schema heap0 =
      (Inl AssertionError, heap0)"
    using definition_errors [where ns = body_no_schema and h = heap0]
    by (simp add: body_no_schema_def)
  have 2: "ValidatedMeta_new py ''B'' [proxy_base] body_plain_schema heap0 =
      (Inl AssertionError, heap0)"
    using k definition_errors
      [where ns = body_plain_schema and h = heap0 and sv = "Val (Data (DInt 3))"]
    by (simp add: body_plain_schema_def)
  have 5: "ValidatedMeta_new py ''B'' [proxy_base] body_use_schema heap0 =
      (Inl AssertionError, heap0)"
    using k' definition_errors
      [where ns = body_use_schema and h = heap0 and sv = "Val (Ref 2)"]
    by (simp add: body_use_schema_def)
  have 3: "ValidatedMeta_new py ''C'' [proxy_base] body_no_init heap0 =
      (Inl AssertionError, heap0)"
    using definition_errors [where ns = body_no_init and h = heap0]
    by (simp add: body_no_init_def)
  have pre: "map_of body_and_schema ''__schema__'' = Some (Val (Ref 1)) \<and>
      schema_kind (objs heap0) (Ref 1) \<and>
      map_of body_and_schema ''__init__'' = Some (Fun GenericWrappedData_init) \<and>
      class_name body_and_schema ''D'' = Val (Data (DStr ''D'')) \<and>
      type_new_error py ''D'' [proxy_base]
        (dict_set body_and_schema ''__init__''
           (Patched (Ref 1) (Fun GenericWrappedData_init))) = None"
    by (simp add: body_and_schema_def class_name_def schema_kind_heap0_Suc py_makes_class)
  with definition_errors
      [where ns = body_and_schema and h = heap0 and s = "Ref 1"
         and old_init = "Fun GenericWrappedData_init" and name = "''D''" and n = "''D''"
         and bases = "[proxy_base]" and B = py]
  have "\<exists>c. ValidatedMeta_new py ''D'' [proxy_base] body_and_schema heap0 =
          (Inr (length (objs heap0)),
           \<lparr>objs = objs heap0 @ [ClassObj c], wrapped = wrapped heap0\<rparr>)"
    by blast
  then have 4: "fst (ValidatedMeta_new py ''D'' [proxy_base] body_and_schema heap0) = Inr 3"
    by (auto simp: length_heap0)
  from 1 2 3 4 5 show ?thesis by simp
qed

section \<open>An initializer with other parameters\<close>




section \<open>The invariant of the wrapped value\<close>














section \<open>Transparency\<close>

lemma is_proxy_generated:
  "lookup (objs h) T = Some (ClassObj (generated_class B schema n)) \<Longrightarrow> is_proxy h T"
  by (simp add: is_proxy_def generated_class_parts proxy_base_def)

lemma proxy_getattr_generated:
  assumes "lookup (objs h) x = Some (InstObj T)"
    and "lookup (objs h) T = Some (ClassObj (generated_class B schema n))"
    and "wrapped h x = Some r"
  shows "proxy_getattr B L h x a =
     (case map_of (cls_dict (generated_class B schema n)) a of
        Some (Val v) \<Rightarrow> Some (Inr (Attr v))
      | Some f \<Rightarrow> Some (Inr (Bound f x))
      | None \<Rightarrow>
          if a = ''__wrapped__'' then Some (Inr (Attr r))
          else (case type_own B a (Some r) x of
                  Some res \<Rightarrow> Some res
                | None \<Rightarrow> Some (value_getattr L r a)))"
  using is_proxy_generated [OF assms(2)]
  by (simp add: proxy_getattr_def class_dict_def assms forward_def
        split: option.splits nsval.splits)

lemma proxy_op_generated:
  assumes "lookup (objs h) x = Some (InstObj T)"
    and "lookup (objs h) T = Some (ClassObj (generated_class B schema n))"
    and "wrapped h x = Some r"
    and "map_of (cls_dict (generated_class B schema n)) meth = None"
  shows "proxy_op h x meth g = Forwarded (g r)"
  using is_proxy_generated [OF assms(2)]
  by (simp add: proxy_op_def class_dict_def assms forward_def)

lemma proxy_getattr_heap2:
  "proxy_getattr py int_lang heap2 4 a =
     (case map_of (cls_dict (generated_class py (Ref 0) ''ValidatedData'')) a of
        Some (Val v) \<Rightarrow> Some (Inr (Attr v))
      | Some f \<Rightarrow> Some (Inr (Bound f 4))
      | None \<Rightarrow>
          if a = ''__wrapped__'' then Some (Inr (Attr (Data (DInt 5))))
          else (case type_own py a (Some (Data (DInt 5))) 4 of
                  Some res \<Rightarrow> Some res
                | None \<Rightarrow> Some (value_getattr int_lang (Data (DInt 5)) a)))"
  using heap2_parts(1,2,3) by (rule proxy_getattr_generated)

text \<open>
  C4, as the spec states it, fails for attribute access: with \<^verbatim>\<open>T = validated_by(S)\<close>
  for \<^verbatim>\<open>S = Schema(Use(abs))\<close> and \<^verbatim>\<open>x = T(-5)\<close>, the validation returns 5;
  \<^verbatim>\<open>x.__module__\<close> and \<^verbatim>\<open>x.__name__\<close> are strings, bound by the class statement and
  by line 59, and \<^verbatim>\<open>x.__enter__\<close> is a method of the proxy; the integer 5 has none of
  these attributes.
\<close>

theorem class_attributes_not_forwarded:
  "call_validate py (objs heap0) (Ref 0) (Data (DInt (- 5))) = Inr (Data (DInt 5)) \<and>
   type_call py 3 [Data (DInt (- 5))] heap1 = (Inr 4, heap2) \<and>
   proxy_getattr py int_lang heap2 4 ''__module__'' =
     Some (Inr (Attr (Data (DStr ''validated_data'')))) \<and>
   value_getattr int_lang (Data (DInt 5)) ''__module__'' = Inl AttributeError \<and>
   proxy_getattr py int_lang heap2 4 ''__name__'' =
     Some (Inr (Attr (Data (DStr ''ValidatedData'')))) \<and>
   value_getattr int_lang (Data (DInt 5)) ''__name__'' = Inl AttributeError \<and>
   proxy_getattr py int_lang heap2 4 ''__enter__'' = Some (Inr (ProxyMember ''__enter__'' 4)) \<and>
   value_getattr int_lang (Data (DInt 5)) ''__enter__'' = Inl AttributeError"
  by (simp add: call_validate_heap0 type_call_heap1 proxy_getattr_heap2 generated_dict)
    (simp add: value_getattr_def int_lang_def py_def)

text \<open>
  C4, amended. Let \<open>T\<close> be a type the factory returned for \<open>schema\<close>, in any later
  heap, and let \<^verbatim>\<open>schema.validate(v)\<close> return \<open>r\<close>. Then \<^verbatim>\<open>T(v)\<close> returns an
  instance on which comparing, indexing and adding are forwarded and give what they give
  on \<open>r\<close>, and reading an attribute gives what it gives on \<open>r\<close> for every name that
  reaches the forwarding: every name that the class namespace of \<open>T\<close> does not bind
  (it binds \<^verbatim>\<open>__module__\<close>, \<^verbatim>\<open>__doc__\<close>, \<^verbatim>\<open>__name__\<close>, \<^verbatim>\<open>__schema__\<close> and
  \<^verbatim>\<open>__init__\<close>, for instance), that is not the slot \<^verbatim>\<open>__wrapped__\<close>, and that the
  type does not answer itself otherwise (as the proxy does for its own members).
  \<^verbatim>\<open>__schema__\<close> gives the schema and \<^verbatim>\<open>__wrapped__\<close> gives \<open>r\<close>.
\<close>

theorem proxy_forwards:
  assumes "validated_by B schema name h = (Inr T, h1)"
    and "prefix (objs h1) (objs h2)"
    and "call_validate B (objs h) schema v = Inr r"
  shows "fst (type_call B T [v] h2) = Inr (length (objs h2)) \<and>
         proxy_eq L (snd (type_call B T [v] h2)) (length (objs h2)) y =
           Forwarded (eq_of L r y) \<and>
         proxy_getitem L (snd (type_call B T [v] h2)) (length (objs h2)) y =
           Forwarded (getitem_of L r y) \<and>
         proxy_add L (snd (type_call B T [v] h2)) (length (objs h2)) y =
           Forwarded (add_of L r y) \<and>
         (class_dict (snd (type_call B T [v] h2)) T a = None \<and>
            a \<noteq> ''__wrapped__'' \<and> type_own B a (Some r) (length (objs h2)) = None \<longrightarrow>
            proxy_getattr B L (snd (type_call B T [v] h2)) (length (objs h2)) a =
              Some (value_getattr L r a)) \<and>
         proxy_getattr B L (snd (type_call B T [v] h2)) (length (objs h2)) ''__schema__'' =
           Some (Inr (Attr schema)) \<and>
         proxy_getattr B L (snd (type_call B T [v] h2)) (length (objs h2)) ''__wrapped__'' =
           Some (Inr (Attr r))"
proof -
  let ?x = "length (objs h2)"
  let ?h3 = "\<lparr>objs = objs h2 @ [InstObj T], wrapped = (wrapped h2)(?x \<mapsto> r)\<rparr>"
  from generated_later [OF assms(1,2)] obtain n
    where l: "lookup (objs h2) T = Some (ClassObj (generated_class B schema n))"
      and v: "\<forall>v. call_validate B (objs h2 @ [InstObj T]) schema v =
                call_validate B (objs h) schema v"
    by blast
  have c: "type_call B T [v] h2 = (Inr ?x, ?h3)"
    by (simp add: type_call_generated [OF l] v assms(3))
  have x: "lookup (objs ?h3) ?x = Some (InstObj T)" by (simp add: lookup_new)
  have t: "lookup (objs ?h3) T = Some (ClassObj (generated_class B schema n))"
    using l by (simp add: lookup_snoc_old)
  have w: "wrapped ?h3 ?x = Some r" by simp
  note g = proxy_getattr_generated [OF x t w, of L]
  have cg: "class_dict ?h3 T a = map_of (cls_dict (generated_class B schema n)) a" for a
    unfolding class_dict_def t by simp
  have e: "proxy_eq L ?h3 ?x y = Forwarded (eq_of L r y)"
    unfolding proxy_eq_def using x t w generated_class_parts(7) by (rule proxy_op_generated)
  have i: "proxy_getitem L ?h3 ?x y = Forwarded (getitem_of L r y)"
    unfolding proxy_getitem_def using x t w generated_class_parts(8) by (rule proxy_op_generated)
  have d: "proxy_add L ?h3 ?x y = Forwarded (add_of L r y)"
    unfolding proxy_add_def using x t w generated_class_parts(9) by (rule proxy_op_generated)
  have g1: "class_dict ?h3 T a = None \<and>
            a \<noteq> ''__wrapped__'' \<and> type_own B a (Some r) ?x = None \<longrightarrow>
            proxy_getattr B L ?h3 ?x a = Some (value_getattr L r a)"
    by (simp only: g cg) (simp split: option.splits)
  have g2: "proxy_getattr B L ?h3 ?x ''__schema__'' = Some (Inr (Attr schema))"
    by (simp only: g generated_class_parts) simp
  have g3: "proxy_getattr B L ?h3 ?x ''__wrapped__'' = Some (Inr (Attr r))"
    by (simp only: g generated_dict) simp
  have "fst (type_call B T [v] h2) = Inr ?x" and "snd (type_call B T [v] h2) = ?h3"
    by (simp_all only: c fst_conv snd_conv)
  with e i d g1 g2 g3 show ?thesis by (simp only: simp_thms)
qed

theorem proxy_forwards_witness:
  "proxy_add int_lang (snd (type_call py 3 [Data (DInt (- 5))] heap1)) 4 (Data (DInt 2)) =
     Forwarded (Inr (Data (DInt 7))) \<and>
   proxy_getattr py int_lang (snd (type_call py 3 [Data (DInt (- 5))] heap1)) 4 ''real'' =
     Some (Inr (Attr (Data (DInt 5)))) \<and>
   proxy_getattr py int_lang (snd (type_call py 3 [Data (DInt (- 5))] heap1)) 4 ''__schema__'' =
     Some (Inr (Attr (Ref 0)))"
proof -
  have p: "prefix (objs heap1) (objs heap1)" by simp
  have o: "type_own py ''real'' (Some (Data (DInt 5))) 4 = None" by (simp add: py_def)
  have cg: "class_dict (snd (type_call py 3 [Data (DInt (- 5))] heap1)) 3 ''real'' = None"
    by (simp add: type_call_heap1 class_dict_def heap2_parts generated_dict)
  from proxy_forwards [OF validated_by_heap0 p call_validate_heap0(1), of "- 5" int_lang
      "Data (DInt 2)" "''real''"] o cg
  show ?thesis by (simp add: length_heap1 value_getattr_def int_lang_def)
qed

end
